theory Spec2Isabelle
  imports Main "HOL-Library.Word" "HOL-Library.Sublist"
begin

section \<open>JavaScript strings\<close>

text \<open>
  A JavaScript string is a sequence of 16-bit UTF-16 code units. The source's string
  literals are all ASCII; \<open>js\<close> turns an ASCII literal into its code units.
\<close>

type_synonym js_string = "16 word list"

definition js :: "string \<Rightarrow> js_string" where
  "js s = map of_char s"

text \<open>
  \<open>String.prototype.trim\<close> removes the code units of WhiteSpace and LineTerminator
  from both ends.
\<close>

definition isWhiteSpace :: "16 word \<Rightarrow> bool" where
  "isWhiteSpace c \<longleftrightarrow>
     c \<in> {0x0009, 0x000A, 0x000B, 0x000C, 0x000D, 0x0020, 0x00A0, 0x1680,
          0x2028, 0x2029, 0x202F, 0x205F, 0x3000, 0xFEFF}
     \<or> (0x2000 \<le> c \<and> c \<le> 0x200A)"

definition trim :: "js_string \<Rightarrow> js_string" where
  "trim s = rev (dropWhile isWhiteSpace (rev (dropWhile isWhiteSpace s)))"

definition isLeadSurrogate :: "16 word \<Rightarrow> bool" where
  "isLeadSurrogate c \<longleftrightarrow> 0xD800 \<le> c \<and> c \<le> 0xDBFF"

definition isTrailSurrogate :: "16 word \<Rightarrow> bool" where
  "isTrailSurrogate c \<longleftrightarrow> 0xDC00 \<le> c \<and> c \<le> 0xDFFF"

text \<open>
  \<open>String.prototype.isWellFormed\<close>: every surrogate is half of a pair, a lead followed
  by a trail.
\<close>

fun isWellFormed :: "js_string \<Rightarrow> bool" where
  "isWellFormed [] = True"
| "isWellFormed [c] = (\<not> isLeadSurrogate c \<and> \<not> isTrailSurrogate c)"
| "isWellFormed (c # d # ds) =
     (if isLeadSurrogate c then isTrailSurrogate d \<and> isWellFormed ds
      else \<not> isTrailSurrogate c \<and> isWellFormed (d # ds))"

subsection \<open>encodeURIComponent\<close>

text \<open>
  \<open>encodeURIComponent\<close> keeps the unreserved characters
  \<^verbatim>\<open>A-Z a-z 0-9 - _ . ! ~ * ' ( )\<close>, and replaces every other code point by the
  bytes of its UTF-8 encoding, each written \<^verbatim>\<open>%XX\<close> with upper-case hex digits. It
  throws a URIError on a surrogate that is not part of a pair: \<open>None\<close> here.
\<close>

definition uriUnescaped :: "16 word \<Rightarrow> bool" where
  "uriUnescaped c \<longleftrightarrow>
     (0x41 \<le> c \<and> c \<le> 0x5A) \<or> (0x61 \<le> c \<and> c \<le> 0x7A) \<or> (0x30 \<le> c \<and> c \<le> 0x39)
     \<or> c \<in> set (js ''-_.!~*'' @ [0x27] @ js ''()'')"

definition hexUpper :: "nat \<Rightarrow> 16 word" where
  "hexUpper n = js ''0123456789ABCDEF'' ! (n mod 16)"

definition percentByte :: "nat \<Rightarrow> js_string" where
  "percentByte b = [0x25, hexUpper (b div 16), hexUpper b]"

definition utf8 :: "nat \<Rightarrow> nat list" where
  "utf8 cp =
     (if cp < 0x80 then [cp]
      else if cp < 0x800 then [0xC0 + cp div 0x40, 0x80 + cp mod 0x40]
      else if cp < 0x10000 then
        [0xE0 + cp div 0x1000, 0x80 + cp div 0x40 mod 0x40, 0x80 + cp mod 0x40]
      else
        [0xF0 + cp div 0x40000, 0x80 + cp div 0x1000 mod 0x40,
         0x80 + cp div 0x40 mod 0x40, 0x80 + cp mod 0x40])"

definition percentEncode :: "nat \<Rightarrow> js_string" where
  "percentEncode cp = concat (map percentByte (utf8 cp))"

definition pairCodePoint :: "16 word \<Rightarrow> 16 word \<Rightarrow> nat" where
  "pairCodePoint c d = 0x10000 + (unat c - 0xD800) * 0x400 + (unat d - 0xDC00)"

fun encodeURIComponent :: "js_string \<Rightarrow> js_string option" where
  "encodeURIComponent [] = Some []"
| "encodeURIComponent (c # cs) =
     (if uriUnescaped c then map_option ((#) c) (encodeURIComponent cs)
      else if isTrailSurrogate c then None
      else if isLeadSurrogate c then
        (case cs of
           [] \<Rightarrow> None
         | d # ds \<Rightarrow>
             if isTrailSurrogate d
             then map_option ((@) (percentEncode (pairCodePoint c d))) (encodeURIComponent ds)
             else None)
      else map_option ((@) (percentEncode (unat c))) (encodeURIComponent cs))"

section \<open>JSON values\<close>

text \<open>
  What \<open>response.json()\<close> yields: null, a boolean, a number, a string, an array or an
  object. A number is a double; it is identified here by its \<open>Number::toString\<close>
  rendering (\<open>1006\<close>, \<open>12.5\<close>, \<open>1e+21\<close>, \<open>Infinity\<close>), which determines it up to the
  sign of zero and is all the handler ever uses of it. An object is the list of its own
  properties in property order.
\<close>

datatype json =
    JNull
  | JBool bool
  | JNum js_string
  | JStr js_string
  | JArr "json list"
  | JObj "(js_string \<times> json) list"

function decimal :: "nat \<Rightarrow> js_string" where
  "decimal n = (if n < 10 then [0x30 + of_nat n] else decimal (n div 10) @ [0x30 + of_nat (n mod 10)])"
  by pat_completeness auto
termination
  by (relation "measure id") auto

declare decimal.simps [simp del]

text \<open>
  The number an integer literal of a JSON text denotes, for an integer up to \<open>2^53\<close>: each
  of them is a double, and is written with its decimal digits.
\<close>

definition JInt :: "nat \<Rightarrow> json" where
  "JInt n = JNum (decimal n)"

subsection \<open>Property reads, optional chaining, nullish coalescing\<close>

text \<open>
  A JavaScript expression evaluates to a JSON value or to \<open>undefined\<close> (\<open>None\<close>).
  \<open>getOwn v k\<close> is the read \<open>v.k\<close> for a name \<open>k\<close> that no built-in prototype defines
  (the handler reads \<open>error\<close>, \<open>code\<close> and \<open>message\<close>): the own property of an object,
  \<open>undefined\<close> on anything else.
\<close>

fun getOwn :: "json \<Rightarrow> js_string \<Rightarrow> json option" where
  "getOwn (JObj ms) k = map_of ms k"
| "getOwn _ k = None"

text \<open>\<open>x?.k\<close>: \<open>undefined\<close> when \<open>x\<close> is \<open>undefined\<close> or \<open>null\<close>, the read otherwise.\<close>

fun optChain :: "json option \<Rightarrow> js_string \<Rightarrow> json option" where
  "optChain None k = None"
| "optChain (Some JNull) k = None"
| "optChain (Some v) k = getOwn v k"

text \<open>\<open>x ?? d\<close>: \<open>d\<close> when \<open>x\<close> is \<open>undefined\<close> or \<open>null\<close>, \<open>x\<close> otherwise.\<close>

fun nullish :: "json option \<Rightarrow> json \<Rightarrow> json" where
  "nullish None d = d"
| "nullish (Some JNull) d = d"
| "nullish (Some v) d = v"

subsection \<open>ToString\<close>

text \<open>
  The conversion behind a property key \<open>obj[v]\<close> and a template literal \<open>${v}\<close>.
  An array joins its elements with commas, \<open>null\<close> elements as the empty string. An
  object goes through \<open>toString\<close> and \<open>valueOf\<close>: with the inherited
  \<open>Object.prototype.toString\<close> the result is \<open>[object Object]\<close>; an own property
  \<open>toString\<close> of a parsed object is never callable, \<open>valueOf\<close> then is either not
  callable or returns the object itself, and the conversion throws a TypeError
  (\<open>None\<close>).
\<close>

fun ToString :: "json \<Rightarrow> js_string option"
  and joinElems :: "json list \<Rightarrow> js_string option" where
  "ToString JNull = Some (js ''null'')"
| "ToString (JBool b) = Some (if b then js ''true'' else js ''false'')"
| "ToString (JNum r) = Some r"
| "ToString (JStr s) = Some s"
| "ToString (JArr xs) = joinElems xs"
| "ToString (JObj ms) =
     (case map_of ms (js ''toString'') of
        None \<Rightarrow> Some (js ''[object Object]'')
      | Some m \<Rightarrow> None)"
| "joinElems [] = Some []"
| "joinElems (x # xs) =
     (case (if x = JNull then Some [] else ToString x) of
        None \<Rightarrow> None
      | Some a \<Rightarrow>
          if xs = [] then Some a
          else (case joinElems xs of None \<Rightarrow> None | Some b \<Rightarrow> Some (a @ js '','' @ b)))"

definition cannotConvert :: js_string where
  "cannotConvert = js ''Cannot convert object to primitive value''"

subsection \<open>JSON.stringify\<close>

definition hexLower :: "nat \<Rightarrow> 16 word" where
  "hexLower n = js ''0123456789abcdef'' ! (n mod 16)"

definition unicodeEscape :: "16 word \<Rightarrow> js_string" where
  "unicodeEscape c =
     [0x5C, 0x75] @ [hexLower (unat c div 4096), hexLower (unat c div 256),
                  hexLower (unat c div 16), hexLower (unat c)]"

definition quoteUnit :: "16 word \<Rightarrow> js_string" where
  "quoteUnit c =
     (if c = 0x08 then [0x5C, 0x62]
      else if c = 0x09 then [0x5C, 0x74]
      else if c = 0x0A then [0x5C, 0x6E]
      else if c = 0x0C then [0x5C, 0x66]
      else if c = 0x0D then [0x5C, 0x72]
      else if c = 0x22 then [0x5C, 0x22]
      else if c = 0x5C then [0x5C, 0x5C]
      else if c < 0x20 \<or> isLeadSurrogate c \<or> isTrailSurrogate c then unicodeEscape c
      else [c])"

text \<open>A surrogate pair is one code point and is copied; a lone surrogate is escaped.\<close>

fun quoteBody :: "js_string \<Rightarrow> js_string" where
  "quoteBody [] = []"
| "quoteBody [c] = quoteUnit c"
| "quoteBody (c # d # ds) =
     (if isLeadSurrogate c \<and> isTrailSurrogate d then c # d # quoteBody ds
      else quoteUnit c @ quoteBody (d # ds))"

definition QuoteJSONString :: "js_string \<Rightarrow> js_string" where
  "QuoteJSONString s = [0x22] @ quoteBody s @ [0x22]"

definition nonFinite :: "js_string \<Rightarrow> bool" where
  "nonFinite r \<longleftrightarrow> r = js ''Infinity'' \<or> r = js ''-Infinity'' \<or> r = js ''NaN''"

fun JSON_stringify :: "json \<Rightarrow> js_string"
  and stringifyElems :: "json list \<Rightarrow> js_string"
  and stringifyMembers :: "(js_string \<times> json) list \<Rightarrow> js_string" where
  "JSON_stringify JNull = js ''null''"
| "JSON_stringify (JBool b) = (if b then js ''true'' else js ''false'')"
| "JSON_stringify (JNum r) = (if nonFinite r then js ''null'' else r)"
| "JSON_stringify (JStr s) = QuoteJSONString s"
| "JSON_stringify (JArr xs) = js ''['' @ stringifyElems xs @ js '']''"
| "JSON_stringify (JObj ms) = js ''{'' @ stringifyMembers ms @ js ''}''"
| "stringifyElems [] = []"
| "stringifyElems (x # xs) =
     JSON_stringify x @ (if xs = [] then [] else js '','' @ stringifyElems xs)"
| "stringifyMembers [] = []"
| "stringifyMembers ((k, v) # ms) =
     QuoteJSONString k @ js '':'' @ JSON_stringify v
       @ (if ms = [] then [] else js '','' @ stringifyMembers ms)"

section \<open>JSON.parse\<close>

text \<open>
  What \<open>JSON.parse\<close> makes of a text: the value, or \<open>None\<close> for a SyntaxError.
\<close>

subsection \<open>Numbers\<close>

text \<open>
  A number literal is scanned by the JSON grammar
  \<^verbatim>\<open>-? (0 | [1-9][0-9]*) (. [0-9]+)? ([eE] [+-]? [0-9]+)?\<close>, taking the longest match.
  It denotes the decimal \<open>mantissa * 10^exponent\<close>, which is rounded to the nearest double
  (ties to even, \<open>Infinity\<close> beyond the largest double), and the double is identified by
  its \<open>Number::toString\<close> rendering: the shortest digits that are read back as the same
  double, laid out as an integer, a decimal fraction or with an exponent.
\<close>

definition isDigit :: "16 word \<Rightarrow> bool" where
  "isDigit c \<longleftrightarrow> 0x30 \<le> c \<and> c \<le> 0x39"

definition digitValue :: "16 word \<Rightarrow> int" where
  "digitValue c = uint c - 0x30"

record numlit =
  negative :: bool
  mantissa :: int
  fracDigits :: int
  expNegative :: bool
  expValue :: int

datatype numstate = NStart | NMinus | NZero | NInt | NDot | NFrac | NExp | NExpSign | NExpDigits

definition isExpMark :: "16 word \<Rightarrow> bool" where
  "isExpMark c \<longleftrightarrow> c = 0x65 \<or> c = 0x45"

definition addDigit :: "16 word \<Rightarrow> numlit \<Rightarrow> numlit" where
  "addDigit c a = a\<lparr>mantissa := 10 * mantissa a + digitValue c\<rparr>"

definition addFracDigit :: "16 word \<Rightarrow> numlit \<Rightarrow> numlit" where
  "addFracDigit c a =
     a\<lparr>mantissa := 10 * mantissa a + digitValue c, fracDigits := fracDigits a + 1\<rparr>"

definition addExpDigit :: "16 word \<Rightarrow> numlit \<Rightarrow> numlit" where
  "addExpDigit c a = a\<lparr>expValue := 10 * expValue a + digitValue c\<rparr>"

fun numStep :: "numstate \<Rightarrow> 16 word \<Rightarrow> numlit \<Rightarrow> (numstate \<times> numlit) option" where
  "numStep NStart c a =
     (if c = 0x2D then Some (NMinus, a\<lparr>negative := True\<rparr>)
      else if c = 0x30 then Some (NZero, a)
      else if isDigit c then Some (NInt, addDigit c a)
      else None)"
| "numStep NMinus c a =
     (if c = 0x30 then Some (NZero, a)
      else if isDigit c then Some (NInt, addDigit c a)
      else None)"
| "numStep NZero c a =
     (if c = 0x2E then Some (NDot, a) else if isExpMark c then Some (NExp, a) else None)"
| "numStep NInt c a =
     (if isDigit c then Some (NInt, addDigit c a)
      else if c = 0x2E then Some (NDot, a)
      else if isExpMark c then Some (NExp, a)
      else None)"
| "numStep NDot c a = (if isDigit c then Some (NFrac, addFracDigit c a) else None)"
| "numStep NFrac c a =
     (if isDigit c then Some (NFrac, addFracDigit c a)
      else if isExpMark c then Some (NExp, a)
      else None)"
| "numStep NExp c a =
     (if c = 0x2B then Some (NExpSign, a)
      else if c = 0x2D then Some (NExpSign, a\<lparr>expNegative := True\<rparr>)
      else if isDigit c then Some (NExpDigits, addExpDigit c a)
      else None)"
| "numStep NExpSign c a = (if isDigit c then Some (NExpDigits, addExpDigit c a) else None)"
| "numStep NExpDigits c a = (if isDigit c then Some (NExpDigits, addExpDigit c a) else None)"

definition numAccepting :: "numstate \<Rightarrow> bool" where
  "numAccepting q \<longleftrightarrow> q = NZero \<or> q = NInt \<or> q = NFrac \<or> q = NExpDigits"

fun scanFrom :: "numstate \<Rightarrow> numlit \<Rightarrow> js_string \<Rightarrow> (numlit \<times> js_string) option" where
  "scanFrom q a [] = (if numAccepting q then Some (a, []) else None)"
| "scanFrom q a (c # cs) =
     (case numStep q c a of
        Some (q', a') \<Rightarrow> scanFrom q' a' cs
      | None \<Rightarrow> if numAccepting q then Some (a, c # cs) else None)"

definition scanNumber :: "js_string \<Rightarrow> (numlit \<times> js_string) option" where
  "scanNumber s =
     scanFrom NStart
       \<lparr>negative = False, mantissa = 0, fracDigits = 0, expNegative = False, expValue = 0\<rparr> s"

function digitsOf :: "int \<Rightarrow> js_string" where
  "digitsOf n =
     (if n < 10 then [0x30 + word_of_int n] else digitsOf (n div 10) @ [0x30 + word_of_int (n mod 10)])"
  by pat_completeness auto
termination
  by (relation "measure nat") auto

declare digitsOf.simps [simp del]

datatype double = DZero | DInfinite | DFinite int int

function bitLength :: "int \<Rightarrow> int" where
  "bitLength n = (if n \<le> 0 then 0 else 1 + bitLength (n div 2))"
  by pat_completeness auto
termination
  by (relation "measure nat") auto

declare bitLength.simps [simp del]

definition roundHalfEven :: "int \<Rightarrow> int \<Rightarrow> int" where
  "roundHalfEven a b =
     (let q = a div b; r = a mod b
      in if b < 2 * r \<or> (2 * r = b \<and> odd q) then q + 1 else q)"

text \<open>\<open>floorLog2 N D\<close> is the \<open>e\<close> with \<open>2^e \<le> N/D < 2^(e+1)\<close>.\<close>

definition floorLog2 :: "int \<Rightarrow> int \<Rightarrow> int" where
  "floorLog2 N D =
     (let e = bitLength N - bitLength D
      in if (if 0 \<le> e then D * 2 ^ nat e \<le> N else D \<le> N * 2 ^ nat (- e)) then e else e - 1)"

text \<open>\<open>N/D\<close> in units of \<open>2^q\<close>, rounded to the nearest integer, ties to even.\<close>

definition scaled :: "int \<Rightarrow> int \<Rightarrow> int \<Rightarrow> int" where
  "scaled N D q =
     (if 0 \<le> q then roundHalfEven N (D * 2 ^ nat q) else roundHalfEven (N * 2 ^ nat (- q)) D)"

definition packDouble :: "int \<Rightarrow> int \<Rightarrow> double" where
  "packDouble f q =
     (if f = 2 ^ 53 then (if 971 < q + 1 then DInfinite else DFinite (2 ^ 52) (q + 1))
      else if 971 < q then DInfinite
      else if f = 0 then DZero
      else DFinite f q)"

definition roundToDouble :: "int \<Rightarrow> int \<Rightarrow> double" where
  "roundToDouble N D =
     (let q = max (floorLog2 N D - 52) (- 1074) in packDouble (scaled N D q) q)"

definition toDouble :: "int \<Rightarrow> int \<Rightarrow> double" where
  "toDouble m e10 =
     (if m \<le> 0 then DZero
      else if 0 \<le> e10 then roundToDouble (m * 10 ^ nat e10) 1
      else roundToDouble m (10 ^ nat (- e10)))"

function scaleUp :: "int \<Rightarrow> int \<Rightarrow> int" where
  "scaleUp A B = (if A \<le> 0 \<or> B \<le> A then 0 else 1 + scaleUp (A * 10) B)"
  by pat_completeness auto
termination
  by (relation "measure (\<lambda>(A, B). nat (B - A))") auto

declare scaleUp.simps [simp del]

text \<open>\<open>magnitude A B\<close> is the \<open>n\<close> with \<open>10^(n-1) \<le> A/B < 10^n\<close>.\<close>

definition magnitude :: "int \<Rightarrow> int \<Rightarrow> int" where
  "magnitude A B =
     (if B \<le> A then int (length (digitsOf (A div B))) else 1 - scaleUp A B)"

definition roundsTo :: "int \<Rightarrow> int \<Rightarrow> int \<Rightarrow> int \<Rightarrow> bool" where
  "roundsTo s d f q \<longleftrightarrow> 0 < s \<and> toDouble s d = DFinite f q"

text \<open>
  The digits \<open>s\<close> next to \<open>P/Q\<close> for which \<open>s * 10^d\<close> is read as the double
  \<open>f * 2^q\<close>: the nearer one if both neighbours do.
\<close>

definition chooseDigits :: "int \<Rightarrow> int \<Rightarrow> int \<Rightarrow> int \<Rightarrow> int \<Rightarrow> int option" where
  "chooseDigits f q d P Q =
     (if roundsTo (P div Q) d f q then
        (if roundsTo (P div Q + 1) d f q then Some (roundHalfEven P Q) else Some (P div Q))
      else if roundsTo (P div Q + 1) d f q then Some (P div Q + 1)
      else None)"

text \<open>The \<open>k\<close>-digit decimal \<open>s * 10^(n-k)\<close> that is read as \<open>A/B = f * 2^q\<close>, if there is one.\<close>

definition candidate :: "int \<Rightarrow> int \<Rightarrow> int \<Rightarrow> int \<Rightarrow> int \<Rightarrow> nat \<Rightarrow> (int \<times> int) option" where
  "candidate A B f q n k =
     (case chooseDigits f q (n - int k)
             (if n \<le> int k then A * 10 ^ nat (int k - n) else A)
             (if n \<le> int k then B else B * 10 ^ nat (n - int k)) of
        None \<Rightarrow> None
      | Some s \<Rightarrow> if s = 10 ^ k then Some (10 ^ (k - 1), n + 1) else Some (s, n))"

function shortestFrom :: "nat \<Rightarrow> int \<Rightarrow> int \<Rightarrow> int \<Rightarrow> int \<Rightarrow> int \<Rightarrow> int \<times> int" where
  "shortestFrom k A B f q n =
     (if 17 < k then (roundHalfEven (A * 10 ^ nat (17 - n)) B, n)
      else (case candidate A B f q n k of
              Some sn \<Rightarrow> sn
            | None \<Rightarrow> shortestFrom (k + 1) A B f q n))"
  by pat_completeness auto
termination
  by (relation "measure (\<lambda>(k, A, B, f, q, n). 18 - k)") auto

declare shortestFrom.simps [simp del]

text \<open>
  The digits \<open>s\<close> and the exponent \<open>n\<close> of \<open>Number::toString\<close>: the shortest decimal
  \<open>0.s * 10^n\<close> that is read as the double, 17 digits at most.
\<close>

definition shortestDigits :: "int \<Rightarrow> int \<Rightarrow> int \<times> int" where
  "shortestDigits f q =
     (if 0 \<le> q then shortestFrom 1 (f * 2 ^ nat q) 1 f q (magnitude (f * 2 ^ nat q) 1)
      else shortestFrom 1 f (2 ^ nat (- q)) f q (magnitude f (2 ^ nat (- q))))"

definition renderDigits :: "int \<Rightarrow> int \<Rightarrow> js_string" where
  "renderDigits s n =
     (let ds = digitsOf s; k = int (length ds)
      in if k \<le> n \<and> n \<le> 21 then ds @ replicate (nat (n - k)) 0x30
         else if 0 < n \<and> n \<le> 21 then take (nat n) ds @ js ''.'' @ drop (nat n) ds
         else if - 6 < n \<and> n \<le> 0 then js ''0.'' @ replicate (nat (- n)) 0x30 @ ds
         else (if k = 1 then ds else take 1 ds @ js ''.'' @ drop 1 ds)
              @ js ''e'' @ (if 0 \<le> n - 1 then js ''+'' else js ''-'') @ digitsOf \<bar>n - 1\<bar>)"

definition numberToString :: "bool \<Rightarrow> double \<Rightarrow> js_string" where
  "numberToString neg x =
     (case x of
        DZero \<Rightarrow> js ''0''
      | DInfinite \<Rightarrow> (if neg then js ''-Infinity'' else js ''Infinity'')
      | DFinite f q \<Rightarrow>
          (if neg then js ''-'' else []) @ (case shortestDigits f q of (s, n) \<Rightarrow> renderDigits s n))"

definition literalValue :: "numlit \<Rightarrow> js_string" where
  "literalValue a =
     numberToString (negative a)
       (toDouble (mantissa a)
          ((if expNegative a then - expValue a else expValue a) - fracDigits a))"

definition parseNumber :: "js_string \<Rightarrow> (js_string \<times> js_string) option" where
  "parseNumber s = map_option (apfst literalValue) (scanNumber s)"



subsection \<open>Strings\<close>

definition hexDigitValue :: "16 word \<Rightarrow> nat option" where
  "hexDigitValue c =
     (if 0x30 \<le> c \<and> c \<le> 0x39 then Some (unat c - 0x30)
      else if 0x61 \<le> c \<and> c \<le> 0x66 then Some (unat c - 0x61 + 10)
      else if 0x41 \<le> c \<and> c \<le> 0x46 then Some (unat c - 0x41 + 10)
      else None)"

definition hexUnit :: "16 word \<Rightarrow> 16 word \<Rightarrow> 16 word \<Rightarrow> 16 word \<Rightarrow> 16 word option" where
  "hexUnit h1 h2 h3 h4 =
     (case (hexDigitValue h1, hexDigitValue h2, hexDigitValue h3, hexDigitValue h4) of
        (Some a, Some b, Some c, Some d) \<Rightarrow> Some (of_nat (a * 4096 + b * 256 + c * 16 + d))
      | _ \<Rightarrow> None)"

definition simpleEscape :: "16 word \<Rightarrow> 16 word option" where
  "simpleEscape e =
     (if e = 0x22 \<or> e = 0x5C \<or> e = 0x2F then Some e
      else if e = 0x62 then Some 0x08
      else if e = 0x66 then Some 0x0C
      else if e = 0x6E then Some 0x0A
      else if e = 0x72 then Some 0x0D
      else if e = 0x74 then Some 0x09
      else None)"

text \<open>
  The characters of a string literal after its opening quote, up to the closing quote,
  and the text after it. A control character must be escaped.
\<close>

fun readString :: "js_string \<Rightarrow> (js_string \<times> js_string) option" where
  "readString [] = None"
| "readString (c # cs) =
     (if c = 0x22 then Some ([], cs)
      else if c = 0x5C then
        (case cs of
           [] \<Rightarrow> None
         | e # es \<Rightarrow>
             if e = 0x75 then
               (case es of
                  h1 # h2 # h3 # h4 # rest \<Rightarrow>
                    (case hexUnit h1 h2 h3 h4 of
                       None \<Rightarrow> None
                     | Some u \<Rightarrow> map_option (apfst ((#) u)) (readString rest))
                | _ \<Rightarrow> None)
             else
               (case simpleEscape e of
                  None \<Rightarrow> None
                | Some u \<Rightarrow> map_option (apfst ((#) u)) (readString es)))
      else if c < 0x20 then None
      else map_option (apfst ((#) c)) (readString cs))"

subsection \<open>Objects\<close>

text \<open>
  A member of the text defines a property: a new key goes after the others, a key that is
  there keeps its place and takes the new value. The keys of an object are enumerated
  with the array indices first, in ascending order, then the other keys in the order of
  their creation.
\<close>

fun defineProperty ::
  "js_string \<Rightarrow> json \<Rightarrow> (js_string \<times> json) list \<Rightarrow> (js_string \<times> json) list" where
  "defineProperty k v [] = [(k, v)]"
| "defineProperty k v ((k', v') # ms) =
     (if k = k' then (k, v) # ms else (k', v') # defineProperty k v ms)"

definition indexValue :: "js_string \<Rightarrow> int" where
  "indexValue k = foldl (\<lambda>a c. 10 * a + digitValue c) 0 k"

definition isArrayIndex :: "js_string \<Rightarrow> bool" where
  "isArrayIndex k \<longleftrightarrow>
     k \<noteq> [] \<and> list_all isDigit k \<and> (k = [0x30] \<or> hd k \<noteq> 0x30) \<and> indexValue k \<le> 4294967294"

definition propertyOrder :: "(js_string \<times> json) list \<Rightarrow> (js_string \<times> json) list" where
  "propertyOrder ms =
     sort_key (\<lambda>m. indexValue (fst m)) (filter (\<lambda>m. isArrayIndex (fst m)) ms)
       @ filter (\<lambda>m. \<not> isArrayIndex (fst m)) ms"

definition makeObject :: "(js_string \<times> json) list \<Rightarrow> (js_string \<times> json) list" where
  "makeObject ms = propertyOrder (foldl (\<lambda>obj m. defineProperty (fst m) (snd m) obj) [] ms)"

subsection \<open>Values\<close>

definition isJsonWhiteSpace :: "16 word \<Rightarrow> bool" where
  "isJsonWhiteSpace c \<longleftrightarrow> c = 0x20 \<or> c = 0x09 \<or> c = 0x0A \<or> c = 0x0D"

definition skipWs :: "js_string \<Rightarrow> js_string" where
  "skipWs s = dropWhile isJsonWhiteSpace s"

text \<open>
  The parser reads one value and returns it with the text after it. The first argument
  bounds the depth of the recursion; the length of the text is enough.
\<close>

fun parseValue :: "nat \<Rightarrow> js_string \<Rightarrow> (json \<times> js_string) option"
  and parseElems :: "nat \<Rightarrow> js_string \<Rightarrow> (json list \<times> js_string) option"
  and parseMembers :: "nat \<Rightarrow> js_string \<Rightarrow> ((js_string \<times> json) list \<times> js_string) option" where
  "parseValue 0 s = None"
| "parseValue (Suc n) s =
     (case skipWs s of
        [] \<Rightarrow> None
      | c # cs \<Rightarrow>
          if c = 0x7B then
            (case skipWs cs of
               [] \<Rightarrow> None
             | d # ds \<Rightarrow>
                 if d = 0x7D then Some (JObj [], ds)
                 else map_option (apfst (\<lambda>ms. JObj (makeObject ms))) (parseMembers n cs))
          else if c = 0x5B then
            (case skipWs cs of
               [] \<Rightarrow> None
             | d # ds \<Rightarrow>
                 if d = 0x5D then Some (JArr [], ds)
                 else map_option (apfst JArr) (parseElems n cs))
          else if c = 0x22 then map_option (apfst JStr) (readString cs)
          else if c = 0x74 then
            (if take 3 cs = js ''rue'' then Some (JBool True, drop 3 cs) else None)
          else if c = 0x66 then
            (if take 4 cs = js ''alse'' then Some (JBool False, drop 4 cs) else None)
          else if c = 0x6E then
            (if take 3 cs = js ''ull'' then Some (JNull, drop 3 cs) else None)
          else map_option (apfst JNum) (parseNumber (c # cs)))"
| "parseElems 0 s = None"
| "parseElems (Suc n) s =
     (case parseValue n s of
        None \<Rightarrow> None
      | Some (v, r) \<Rightarrow>
          (case skipWs r of
             [] \<Rightarrow> None
           | c # cs \<Rightarrow>
               if c = 0x2C then map_option (apfst ((#) v)) (parseElems n cs)
               else if c = 0x5D then Some ([v], cs)
               else None))"
| "parseMembers 0 s = None"
| "parseMembers (Suc n) s =
     (case skipWs s of
        [] \<Rightarrow> None
      | c # cs \<Rightarrow>
          if c \<noteq> 0x22 then None
          else
            (case readString cs of
               None \<Rightarrow> None
             | Some (k, r) \<Rightarrow>
                 (case skipWs r of
                    [] \<Rightarrow> None
                  | d # ds \<Rightarrow>
                      if d \<noteq> 0x3A then None
                      else
                        (case parseValue n ds of
                           None \<Rightarrow> None
                         | Some (v, r') \<Rightarrow>
                             (case skipWs r' of
                                [] \<Rightarrow> None
                              | e # es \<Rightarrow>
                                  if e = 0x2C then
                                    map_option (apfst ((#) (k, v))) (parseMembers n es)
                                  else if e = 0x7D then Some ([(k, v)], es)
                                  else None)))))"

definition JSON_parse :: "js_string \<Rightarrow> json option" where
  "JSON_parse text =
     (case parseValue (Suc (length text)) text of
        None \<Rightarrow> None
      | Some (v, r) \<Rightarrow> if skipWs r = [] then Some v else None)"

section \<open>The handler\<close>

text \<open>
  The event carries the HTTP method and the query parameters, which are \<open>null\<close>
  (\<open>None\<close>) when the request has none. \<open>process.env\<close> maps variable names to strings.
\<close>

record event =
  httpMethod :: js_string
  queryStringParameters :: "(js_string \<rightharpoonup> js_string) option"

type_synonym env = "js_string \<rightharpoonup> js_string"

text \<open>
  The upstream is a parameter of the model: \<open>fetch url\<close> either throws an error with a
  message, or resolves to a response with its \<open>ok\<close> flag (status in the range 200-299)
  and the outcome of \<open>response.json()\<close>, which throws on a body that is not JSON.
\<close>

datatype json_result = JsonThrows js_string | JsonValue json

datatype fetch_result = FetchThrows js_string | FetchResponse bool json_result

text \<open>
  \<open>statusMap[errorCode]\<close> is a property read on an object literal: the key is converted
  with ToString, the own properties are searched, then \<open>Object.prototype\<close>. A status
  code is therefore a number, or the member of \<open>Object.prototype\<close> of that name.
\<close>

datatype js_value = Status nat | ObjectPrototype js_string

record response =
  statusCode :: js_value
  headers :: "(js_string \<times> js_string) list"
  body :: js_string

datatype js_error = URIError

text \<open>
  An invocation resolves to a response or rejects with an error; on the way it calls
  \<open>fetch\<close> (the URLs, in order) and \<open>console.error\<close> (the argument lists, in order).
\<close>

record outcome =
  result :: "js_error + response"
  fetched :: "js_string list"
  logged :: "js_string list list"

definition corsHeaders :: "(js_string \<times> js_string) list" where
  "corsHeaders =
     [(js ''Access-Control-Allow-Origin'', js ''*''),
      (js ''Access-Control-Allow-Headers'', js ''Content-Type''),
      (js ''Content-Type'', js ''application/json'')]"

definition statusMap :: "(js_string \<times> nat) list" where
  "statusMap =
     [(js ''1006'', 404), (js ''2006'', 401), (js ''2007'', 403),
      (js ''2008'', 403), (js ''9000'', 400), (js ''9001'', 400)]"

definition objectPrototypeKeys :: "js_string list" where
  "objectPrototypeKeys =
     [js ''constructor'', js ''hasOwnProperty'', js ''isPrototypeOf'',
      js ''propertyIsEnumerable'', js ''toLocaleString'', js ''toString'', js ''valueOf'',
      js ''__proto__'', js ''__defineGetter__'', js ''__defineSetter__'',
      js ''__lookupGetter__'', js ''__lookupSetter__'']"

definition statusMapGet :: "js_string \<Rightarrow> js_value option" where
  "statusMapGet k =
     (case map_of statusMap k of
        Some n \<Rightarrow> Some (Status n)
      | None \<Rightarrow> if k \<in> set objectPrototypeKeys then Some (ObjectPrototype k) else None)"

text \<open>Lines 113-138: the branch for an upstream response that is not ok.\<close>

definition upstreamError :: "json \<Rightarrow> js_string + js_string list list \<times> response" where
  "upstreamError data =
     (let errorCode = nullish (optChain (optChain (Some data) (js ''error'')) (js ''code''))
                        (JStr (js ''unknown''));
          errorMessage = nullish (optChain (optChain (Some data) (js ''error'')) (js ''message''))
                           (JStr (js ''Unknown error from WeatherAPI.''))
      in (case ToString errorCode of
            None \<Rightarrow> Inl cannotConvert
          | Some key \<Rightarrow>
              (case ToString errorMessage of
                 None \<Rightarrow> Inl cannotConvert
               | Some message \<Rightarrow>
                   Inr ([[js ''WeatherAPI error ['' @ key @ js '']: '' @ message]],
                        \<lparr>statusCode =
                           (case statusMapGet key of None \<Rightarrow> Status 502 | Some v \<Rightarrow> v),
                         headers = corsHeaders,
                         body = JSON_stringify
                           (JObj [(js ''error'', errorMessage), (js ''code'', errorCode)])\<rparr>))))"

text \<open>
  Lines 104-147, the body of the \<open>try\<close>: \<open>Inl\<close> is the message of the error thrown,
  \<open>Inr\<close> the lines logged and the response returned.
\<close>

definition tryBlock :: "fetch_result \<Rightarrow> js_string + js_string list list \<times> response" where
  "tryBlock r =
     (case r of
        FetchThrows m \<Rightarrow> Inl m
      | FetchResponse ok j \<Rightarrow>
          (case j of
             JsonThrows m \<Rightarrow> Inl m
           | JsonValue data \<Rightarrow>
               if \<not> ok then upstreamError data
               else Inr ([], \<lparr>statusCode = Status 200, headers = corsHeaders,
                               body = JSON_stringify data\<rparr>)))"

definition weatherUrl :: "js_string \<Rightarrow> js_string \<Rightarrow> js_string" where
  "weatherUrl API_KEY q =
     js ''https://api.weatherapi.com/v1/forecast.json''
       @ js ''?key='' @ API_KEY
       @ js ''&q='' @ q
       @ js ''&days=7''
       @ js ''&aqi=yes''"

text \<open>Line 52: \<open>const { city } = event.queryStringParameters || {}\<close>.\<close>

definition cityParam :: "event \<Rightarrow> js_string option" where
  "cityParam event =
     (case queryStringParameters event of None \<Rightarrow> Map.empty | Some q \<Rightarrow> q) (js ''city'')"

text \<open>The four returns before the upstream call (lines 31, 39, 55 and 73).\<close>

definition preflight :: outcome where
  "preflight =
     \<lparr>result = Inr \<lparr>statusCode = Status 204, headers = corsHeaders, body = []\<rparr>,
      fetched = [], logged = []\<rparr>"

definition methodNotAllowed :: outcome where
  "methodNotAllowed =
     \<lparr>result = Inr \<lparr>statusCode = Status 405, headers = corsHeaders,
        body = JSON_stringify (JObj [(js ''error'', JStr (js ''Method not allowed. Use GET.''))])\<rparr>,
      fetched = [], logged = []\<rparr>"

definition missingCity :: outcome where
  "missingCity =
     \<lparr>result = Inr \<lparr>statusCode = Status 400, headers = corsHeaders,
        body = JSON_stringify
          (JObj [(js ''error'', JStr (js ''Missing required query parameter: city'')),
                 (js ''example'', JStr (js ''/.netlify/functions/weather?city=Boston''))])\<rparr>,
      fetched = [], logged = []\<rparr>"

definition keyNotSet :: outcome where
  "keyNotSet =
     \<lparr>result = Inr \<lparr>statusCode = Status 500, headers = corsHeaders,
        body = JSON_stringify
          (JObj [(js ''error'', JStr (js ''Server configuration error: API key not set.''))])\<rparr>,
      fetched = [],
      logged = [[js ''WEATHER_API_KEY environment variable is not set.'']]\<rparr>"

text \<open>Lines 149-164, the \<open>catch\<close>: the response for an error with the given message.\<close>

definition fetchFailed :: "js_string \<Rightarrow> response" where
  "fetchFailed message =
     \<lparr>statusCode = Status 500, headers = corsHeaders,
      body = JSON_stringify
        (JObj [(js ''error'', JStr (js ''Failed to fetch weather data. Please try again later.'')),
               (js ''detail'', JStr message)])\<rparr>"

text \<open>
  Lines 90-164. \<open>encodeURIComponent\<close> stands before the \<open>try\<close>: its URIError is not
  caught, and the invocation rejects.
\<close>

definition callUpstream ::
  "js_string \<Rightarrow> js_string \<Rightarrow> (js_string \<Rightarrow> fetch_result) \<Rightarrow> outcome" where
  "callUpstream API_KEY city fetch =
     (case encodeURIComponent (trim city) of
        None \<Rightarrow> \<lparr>result = Inl URIError, fetched = [], logged = []\<rparr>
      | Some q \<Rightarrow>
          (case tryBlock (fetch (weatherUrl API_KEY q)) of
             Inr (lines, resp) \<Rightarrow>
               \<lparr>result = Inr resp, fetched = [weatherUrl API_KEY q], logged = lines\<rparr>
           | Inl message \<Rightarrow>
               \<lparr>result = Inr (fetchFailed message), fetched = [weatherUrl API_KEY q],
                logged = [[js ''Unexpected error fetching weather data:'', message]]\<rparr>))"

definition handler :: "event \<Rightarrow> env \<Rightarrow> (js_string \<Rightarrow> fetch_result) \<Rightarrow> outcome" where
  "handler event env fetch =
     (if httpMethod event = js ''OPTIONS'' then preflight
      else if httpMethod event \<noteq> js ''GET'' then methodNotAllowed
      else
        (case cityParam event of
           None \<Rightarrow> missingCity
         | Some city \<Rightarrow>
             if city = [] \<or> trim city = [] then missingCity
             else
               (case env (js ''WEATHER_API_KEY'') of
                  None \<Rightarrow> keyNotSet
                | Some API_KEY \<Rightarrow>
                    if API_KEY = [] then keyNotSet
                    else callUpstream API_KEY city fetch)))"

section \<open>Notions for the statements\<close>

text \<open>The body of the response, empty when the invocation rejects.\<close>

definition responseBody :: "outcome \<Rightarrow> js_string" where
  "responseBody out = (case result out of Inl e \<Rightarrow> [] | Inr r \<Rightarrow> body r)"

text \<open>Whether \<open>!API_KEY\<close> is false: the variable is set, and not to the empty string.\<close>

definition keyIsSet :: "env \<Rightarrow> bool" where
  "keyIsSet env = (case env (js ''WEATHER_API_KEY'') of None \<Rightarrow> False | Some k \<Rightarrow> k \<noteq> [])"

subsection \<open>Characters of a number\<close>

definition numberChar :: "16 word \<Rightarrow> bool" where
  "numberChar c \<longleftrightarrow> c \<in> set (js ''0123456789+-.e'')"

subsection \<open>Payloads\<close>

text \<open>
  The values \<open>JSON.parse\<close> forms: a number is a double, so its rendering is the one of the
  double it is read as (or it is infinite), and the properties of an object are distinct
  and stand in property order. No other value reaches the handler as a payload.
\<close>

fun wellFormedValue :: "json \<Rightarrow> bool" where
  "wellFormedValue (JNum r) \<longleftrightarrow>
     parseNumber r = Some (r, []) \<or> r = js ''Infinity'' \<or> r = js ''-Infinity''"
| "wellFormedValue (JArr xs) \<longleftrightarrow> list_all wellFormedValue xs"
| "wellFormedValue (JObj ms) \<longleftrightarrow>
     makeObject ms = ms \<and> list_all (\<lambda>m. wellFormedValue (snd m)) ms"
| "wellFormedValue v \<longleftrightarrow> True"

text \<open>A payload without \<open>Infinity\<close>, \<open>-Infinity\<close> or \<open>NaN\<close> among its numbers.\<close>

fun noNonFinite :: "json \<Rightarrow> bool" where
  "noNonFinite (JNum r) \<longleftrightarrow> \<not> nonFinite r"
| "noNonFinite (JArr xs) \<longleftrightarrow> list_all noNonFinite xs"
| "noNonFinite (JObj ms) \<longleftrightarrow> list_all (\<lambda>m. noNonFinite (snd m)) ms"
| "noNonFinite v \<longleftrightarrow> True"

text \<open>A text that ends a value: it is empty or starts with a comma or a closing bracket.\<close>

definition startsValueEnd :: "js_string \<Rightarrow> bool" where
  "startsValueEnd rest \<longleftrightarrow>
     (case rest of [] \<Rightarrow> True | c # cs \<Rightarrow> c = 0x2C \<or> c = 0x5D \<or> c = 0x7D)"

section \<open>Example requests and upstreams\<close>

definition getCity :: "js_string \<Rightarrow> event" where
  "getCity city = \<lparr>httpMethod = js ''GET'', queryStringParameters = Some [js ''city'' \<mapsto> city]\<rparr>"

definition getNoParams :: event where
  "getNoParams = \<lparr>httpMethod = js ''GET'', queryStringParameters = None\<rparr>"

definition keyEnv :: "js_string \<Rightarrow> env" where
  "keyEnv k = [js ''WEATHER_API_KEY'' \<mapsto> k]"

definition noEnv :: env where
  "noEnv = Map.empty"

text \<open>An upstream that is down, one that answers with a body that is not JSON, one that answers.\<close>

definition upstreamDown :: "js_string \<Rightarrow> js_string \<Rightarrow> fetch_result" where
  "upstreamDown message url = FetchThrows message"

definition upstreamGarbled :: "bool \<Rightarrow> js_string \<Rightarrow> js_string \<Rightarrow> fetch_result" where
  "upstreamGarbled ok message url = FetchResponse ok (JsonThrows message)"

definition upstreamAnswers :: "bool \<Rightarrow> json \<Rightarrow> js_string \<Rightarrow> fetch_result" where
  "upstreamAnswers ok data url = FetchResponse ok (JsonValue data)"

definition londonUrl :: js_string where
  "londonUrl = js ''https://api.weatherapi.com/v1/forecast.json?key=k123&q=London&days=7&aqi=yes''"

definition noLocation :: json where
  "noLocation =
     JObj [(js ''error'',
            JObj [(js ''code'', JInt 1006),
                  (js ''message'', JStr (js ''No matching location found.''))])]"

text \<open>Error bodies an upstream can send with a status that is not ok.\<close>

definition constructorError :: json where
  "constructorError =
     JObj [(js ''error'',
            JObj [(js ''code'', JStr (js ''constructor'')),
                  (js ''message'', JStr (js ''x''))])]"

definition unconvertibleError :: json where
  "unconvertibleError =
     JObj [(js ''error'',
            JObj [(js ''code'', JObj [(js ''toString'', JNull)]),
                  (js ''message'', JStr (js ''x''))])]"

text \<open>An upstream error whose message names the key of the request.\<close>

definition echoedKeyError :: json where
  "echoedKeyError =
     JObj [(js ''error'',
            JObj [(js ''code'', JInt 2006),
                  (js ''message'', JStr (js ''API key k123 is invalid.''))])]"



section \<open>Basic facts\<close>

lemma GET_not_OPTIONS [simp]:
  "js ''GET'' \<noteq> js ''OPTIONS''" "js ''OPTIONS'' \<noteq> js ''GET''"
  by (simp_all add: js_def)

lemma dropWhile_all: "(\<forall>x\<in>set (dropWhile P s). P x) \<longleftrightarrow> (\<forall>x\<in>set s. P x)"
  by (induction s) auto

lemma trim_empty_iff: "trim s = [] \<longleftrightarrow> (\<forall>c\<in>set s. isWhiteSpace c)"
  by (simp add: trim_def dropWhile_all)

lemma tryBlock_headers: "tryBlock r = Inr (ls, resp) \<Longrightarrow> headers resp = corsHeaders"
  by (auto simp: tryBlock_def upstreamError_def Let_def
      split: fetch_result.splits json_result.splits option.splits if_splits)

lemma callUpstream_headers:
  "result (callUpstream k c fetch) = Inr r \<Longrightarrow> headers r = corsHeaders"
  by (auto simp: callUpstream_def fetchFailed_def dest: tryBlock_headers
      split: option.splits sum.splits)

text \<open>
  An invocation that calls the upstream at all calls it once, with the URL built from the
  key and the city, and its outcome is what the \<open>try\<close> and the \<open>catch\<close> make of the
  upstream's answer.
\<close>

lemma fetched_callUpstream:
  "url \<in> set (fetched (callUpstream k c fetch)) \<Longrightarrow>
     \<exists>q. encodeURIComponent (trim c) = Some q \<and> url = weatherUrl k q \<and>
       callUpstream k c fetch =
         (case tryBlock (fetch url) of
            Inr (lines, resp) \<Rightarrow> \<lparr>result = Inr resp, fetched = [url], logged = lines\<rparr>
          | Inl message \<Rightarrow>
              \<lparr>result = Inr (fetchFailed message), fetched = [url],
               logged = [[js ''Unexpected error fetching weather data:'', message]]\<rparr>)"
  by (auto simp: callUpstream_def split: option.splits sum.splits)

lemma fetched_handler:
  assumes "url \<in> set (fetched (handler event env fetch))"
  shows "\<exists>k c. env (js ''WEATHER_API_KEY'') = Some k \<and> cityParam event = Some c
           \<and> handler event env fetch = callUpstream k c fetch"
  using assms
  by (auto simp: handler_def preflight_def methodNotAllowed_def missingCity_def keyNotSet_def
      split: if_splits option.splits)

lemma handler_upstream:
  assumes "url \<in> set (fetched (handler event env fetch))"
  shows "handler event env fetch =
         (case tryBlock (fetch url) of
            Inr (lines, resp) \<Rightarrow> \<lparr>result = Inr resp, fetched = [url], logged = lines\<rparr>
          | Inl message \<Rightarrow>
              \<lparr>result = Inr (fetchFailed message), fetched = [url],
               logged = [[js ''Unexpected error fetching weather data:'', message]]\<rparr>)"
proof -
  from fetched_handler[OF assms] obtain k c
    where h: "handler event env fetch = callUpstream k c fetch" by blast
  with assms have "url \<in> set (fetched (callUpstream k c fetch))" by simp
  from fetched_callUpstream[OF this] show ?thesis using h by (elim exE conjE) simp
qed

lemma trim_London: "trim (js ''London'') = js ''London''"
  by (simp add: trim_def js_def isWhiteSpace_def)

lemma encode_London: "encodeURIComponent (js ''London'') = Some (js ''London'')"
  by (simp add: js_def uriUnescaped_def)

lemma fetched_London:
  "fetched (handler (getCity (js ''London'')) (keyEnv (js ''k123'')) fetch) = [londonUrl]"
proof -
  have "js ''London'' \<noteq> []" "js ''k123'' \<noteq> []"
    by (simp_all add: js_def)
  then have "fetched (handler (getCity (js ''London'')) (keyEnv (js ''k123'')) fetch)
      = [weatherUrl (js ''k123'') (js ''London'')]"
    by (simp add: handler_def getCity_def keyEnv_def cityParam_def trim_London
        callUpstream_def encode_London split: sum.splits)
  also have "weatherUrl (js ''k123'') (js ''London'') = londonUrl"
    by (simp add: weatherUrl_def londonUrl_def js_def)
  finally show ?thesis .
qed

section \<open>The preflight\<close>

text \<open>
  C8. A request with method OPTIONS gets status 204, an empty body and the CORS headers,
  whatever its query parameters, the environment and the upstream; nothing is fetched and
  nothing is logged, so the branch is taken before every later step.
\<close>

theorem options_preflight:
  "handler \<lparr>httpMethod = js ''OPTIONS'', queryStringParameters = q\<rparr> env fetch =
     \<lparr>result = Inr \<lparr>statusCode = Status 204,
        headers = [(js ''Access-Control-Allow-Origin'', js ''*''),
                   (js ''Access-Control-Allow-Headers'', js ''Content-Type''),
                   (js ''Content-Type'', js ''application/json'')],
        body = []\<rparr>,
      fetched = [], logged = []\<rparr>"
  by (simp add: handler_def preflight_def corsHeaders_def)

section \<open>The response headers\<close>

text \<open>
  C7. Every response the handler returns, on whichever branch, carries the same three
  headers.
\<close>

theorem headers_always:
  assumes "result (handler event env fetch) = Inr r"
  shows "headers r = [(js ''Access-Control-Allow-Origin'', js ''*''),
                      (js ''Access-Control-Allow-Headers'', js ''Content-Type''),
                      (js ''Content-Type'', js ''application/json'')]"
proof -
  have "headers r = corsHeaders"
    using assms
    by (auto simp: handler_def preflight_def methodNotAllowed_def missingCity_def keyNotSet_def
        dest: callUpstream_headers split: if_splits option.splits)
  then show ?thesis by (simp add: corsHeaders_def)
qed

theorem headers_always_witness:
  "result (handler \<lparr>httpMethod = js ''DELETE'', queryStringParameters = None\<rparr> noEnv
             (upstreamDown [])) =
     Inr \<lparr>statusCode = Status 405, headers = corsHeaders,
          body = JSON_stringify (JObj [(js ''error'', JStr (js ''Method not allowed. Use GET.''))])\<rparr>
   \<and> headers \<lparr>statusCode = Status 405, headers = corsHeaders,
          body = JSON_stringify (JObj [(js ''error'', JStr (js ''Method not allowed. Use GET.''))])\<rparr>
     = [(js ''Access-Control-Allow-Origin'', js ''*''),
        (js ''Access-Control-Allow-Headers'', js ''Content-Type''),
        (js ''Content-Type'', js ''application/json'')]"
proof -
  have h: "result (handler \<lparr>httpMethod = js ''DELETE'', queryStringParameters = None\<rparr> noEnv
             (upstreamDown [])) =
     Inr \<lparr>statusCode = Status 405, headers = corsHeaders,
          body = JSON_stringify (JObj [(js ''error'', JStr (js ''Method not allowed. Use GET.''))])\<rparr>"
    by (simp add: handler_def methodNotAllowed_def js_def)
  from headers_always[OF h] h show ?thesis by simp
qed

section \<open>Requests without a city\<close>

text \<open>
  C4. A GET request whose query parameters are absent, or lack \<open>city\<close>, or give a
  \<open>city\<close> that is empty or made of white space only, gets status 400 and a body with
  the fields \<open>error\<close> and \<open>example\<close>; nothing is fetched. Absent query parameters are
  read as an empty mapping.
\<close>

theorem missing_city_400:
  assumes "httpMethod event = js ''GET''"
    and "queryStringParameters event = None
         \<or> (\<exists>q. queryStringParameters event = Some q \<and>
               (q (js ''city'') = None \<or> q (js ''city'') = Some []
                \<or> (\<exists>c. q (js ''city'') = Some c \<and> (\<forall>x\<in>set c. isWhiteSpace x))))"
  shows "handler event env fetch =
     \<lparr>result = Inr \<lparr>statusCode = Status 400, headers = corsHeaders,
        body = JSON_stringify
          (JObj [(js ''error'', JStr (js ''Missing required query parameter: city'')),
                 (js ''example'', JStr (js ''/.netlify/functions/weather?city=Boston''))])\<rparr>,
      fetched = [], logged = []\<rparr>
     \<and> handler (event\<lparr>queryStringParameters := None\<rparr>) env fetch
       = handler (event\<lparr>queryStringParameters := Some Map.empty\<rparr>) env fetch"
  using assms by (auto simp: handler_def cityParam_def trim_empty_iff missingCity_def)

theorem missing_city_400_witness:
  "handler getNoParams (keyEnv (js ''k123'')) (upstreamDown []) =
     \<lparr>result = Inr \<lparr>statusCode = Status 400, headers = corsHeaders,
        body = JSON_stringify
          (JObj [(js ''error'', JStr (js ''Missing required query parameter: city'')),
                 (js ''example'', JStr (js ''/.netlify/functions/weather?city=Boston''))])\<rparr>,
      fetched = [], logged = []\<rparr>
   \<and> handler (getCity (js ''  '')) (keyEnv (js ''k123'')) (upstreamDown []) =
     \<lparr>result = Inr \<lparr>statusCode = Status 400, headers = corsHeaders,
        body = JSON_stringify
          (JObj [(js ''error'', JStr (js ''Missing required query parameter: city'')),
                 (js ''example'', JStr (js ''/.netlify/functions/weather?city=Boston''))])\<rparr>,
      fetched = [], logged = []\<rparr>"
proof -
  have g: "httpMethod getNoParams = js ''GET''" "httpMethod (getCity (js ''  '')) = js ''GET''"
    by (simp_all add: getNoParams_def getCity_def)
  have a: "queryStringParameters getNoParams = None"
    by (simp add: getNoParams_def)
  have b: "\<exists>q. queryStringParameters (getCity (js ''  '')) = Some q \<and>
               (q (js ''city'') = None \<or> q (js ''city'') = Some []
                \<or> (\<exists>c. q (js ''city'') = Some c \<and> (\<forall>x\<in>set c. isWhiteSpace x)))"
    by (simp add: getCity_def js_def isWhiteSpace_def)
  from missing_city_400[OF g(1) disjI1, OF a] missing_city_400[OF g(2) disjI2, OF b]
  show ?thesis by simp
qed

section \<open>A missing API key\<close>

text \<open>
  C5. A GET request with a valid city, in an environment where \<open>WEATHER_API_KEY\<close> is
  not set, gets status 500 with the configuration error as its body. The invocation
  returns a response (it does not throw), and the upstream is not called.
\<close>

theorem key_unset_500:
  assumes "httpMethod event = js ''GET''"
    and "cityParam event = Some city" and "trim city \<noteq> []"
    and "env (js ''WEATHER_API_KEY'') = None"
  shows "handler event env fetch =
     \<lparr>result = Inr \<lparr>statusCode = Status 500, headers = corsHeaders,
        body = JSON_stringify
          (JObj [(js ''error'', JStr (js ''Server configuration error: API key not set.''))])\<rparr>,
      fetched = [],
      logged = [[js ''WEATHER_API_KEY environment variable is not set.'']]\<rparr>"
  using assms by (auto simp: handler_def trim_def keyNotSet_def)

theorem key_unset_500_witness:
  "handler (getCity (js ''London'')) noEnv (upstreamAnswers True JNull) =
     \<lparr>result = Inr \<lparr>statusCode = Status 500, headers = corsHeaders,
        body = JSON_stringify
          (JObj [(js ''error'', JStr (js ''Server configuration error: API key not set.''))])\<rparr>,
      fetched = [],
      logged = [[js ''WEATHER_API_KEY environment variable is not set.'']]\<rparr>"
proof -
  have a: "httpMethod (getCity (js ''London'')) = js ''GET''"
    and b: "cityParam (getCity (js ''London'')) = Some (js ''London'')"
    by (simp_all add: getCity_def cityParam_def)
  have c: "trim (js ''London'') \<noteq> []"
    by (simp add: trim_London) (simp add: js_def)
  have d: "noEnv (js ''WEATHER_API_KEY'') = None"
    by (simp add: noEnv_def)
  from key_unset_500[where env = noEnv and fetch = "upstreamAnswers True JNull", OF a b c d]
  show ?thesis .
qed

section \<open>Upstream failures\<close>

text \<open>
  C6. An invocation that calls the upstream, where the call throws or the body of the
  response does not parse as JSON, gets status 500 with the fixed \<open>error\<close> text and the
  message of the error as \<open>detail\<close>. The upstream was called exactly once (there is no
  retry) and the failure is logged once.
\<close>

theorem fetch_failure_500:
  assumes "url \<in> set (fetched (handler event env fetch))"
    and "fetch url = FetchThrows message \<or> fetch url = FetchResponse ok (JsonThrows message)"
  shows "handler event env fetch =
     \<lparr>result = Inr \<lparr>statusCode = Status 500, headers = corsHeaders,
        body = JSON_stringify
          (JObj [(js ''error'',
                    JStr (js ''Failed to fetch weather data. Please try again later.'')),
                 (js ''detail'', JStr message)])\<rparr>,
      fetched = [url],
      logged = [[js ''Unexpected error fetching weather data:'', message]]\<rparr>"
  using assms(2) handler_upstream[OF assms(1)]
  by (auto simp: tryBlock_def fetchFailed_def)

theorem fetch_failure_500_witness:
  "handler (getCity (js ''London'')) (keyEnv (js ''k123'')) (upstreamDown (js ''fetch failed'')) =
     \<lparr>result = Inr \<lparr>statusCode = Status 500, headers = corsHeaders,
        body = JSON_stringify
          (JObj [(js ''error'',
                    JStr (js ''Failed to fetch weather data. Please try again later.'')),
                 (js ''detail'', JStr (js ''fetch failed''))])\<rparr>,
      fetched = [londonUrl],
      logged = [[js ''Unexpected error fetching weather data:'', js ''fetch failed'']]\<rparr>
   \<and> handler (getCity (js ''London'')) (keyEnv (js ''k123''))
        (upstreamGarbled True (js ''Unexpected end of JSON input'')) =
     \<lparr>result = Inr \<lparr>statusCode = Status 500, headers = corsHeaders,
        body = JSON_stringify
          (JObj [(js ''error'',
                    JStr (js ''Failed to fetch weather data. Please try again later.'')),
                 (js ''detail'', JStr (js ''Unexpected end of JSON input''))])\<rparr>,
      fetched = [londonUrl],
      logged = [[js ''Unexpected error fetching weather data:'',
                 js ''Unexpected end of JSON input'']]\<rparr>"
proof -
  have a: "londonUrl \<in> set (fetched (handler (getCity (js ''London'')) (keyEnv (js ''k123'')) f))" for f
    by (simp add: fetched_London)
  have b: "upstreamDown (js ''fetch failed'') londonUrl = FetchThrows (js ''fetch failed'')"
    by (simp add: upstreamDown_def)
  have c: "upstreamGarbled True (js ''Unexpected end of JSON input'') londonUrl
      = FetchResponse True (JsonThrows (js ''Unexpected end of JSON input''))"
    by (simp add: upstreamGarbled_def)
  from fetch_failure_500[where fetch = "upstreamDown (js ''fetch failed'')", OF a disjI1, OF b]
    fetch_failure_500[where fetch = "upstreamGarbled True (js ''Unexpected end of JSON input'')",
      OF a disjI2, OF c]
  show ?thesis by simp
qed

section \<open>Upstream answers with a success status\<close>

text \<open>
  C10, as the code has it. When the upstream's response is ok (status 2xx) and its body
  parses as JSON, the handler returns 200 and the serialised body whatever the parsed
  body is, also when it holds an \<open>error\<close> object: the table of error codes is consulted
  only for a response that is not ok.
\<close>

theorem ok_response_never_mapped:
  assumes "url \<in> set (fetched (handler event env fetch))"
    and "fetch url = FetchResponse True (JsonValue data)"
  shows "result (handler event env fetch) =
           Inr \<lparr>statusCode = Status 200, headers = corsHeaders, body = JSON_stringify data\<rparr>"
  using assms(2) handler_upstream[OF assms(1)]
  by (auto simp: tryBlock_def)

theorem ok_response_never_mapped_witness:
  "result (handler (getCity (js ''London'')) (keyEnv (js ''k123'')) (upstreamAnswers True noLocation)) =
     Inr \<lparr>statusCode = Status 200, headers = corsHeaders, body = JSON_stringify noLocation\<rparr>"
proof -
  have a: "londonUrl \<in> set (fetched (handler (getCity (js ''London'')) (keyEnv (js ''k123''))
      (upstreamAnswers True noLocation)))"
    by (simp add: fetched_London)
  have b: "upstreamAnswers True noLocation londonUrl = FetchResponse True (JsonValue noLocation)"
    by (simp add: upstreamAnswers_def)
  from ok_response_never_mapped[where fetch = "upstreamAnswers True noLocation", OF a b]
  show ?thesis .
qed

text \<open>
  A response that is ok but whose body does not parse never reaches the forwarding:
  \<open>response.json()\<close> throws, and the \<open>catch\<close> answers 500.
\<close>

theorem ok_unparseable_body_500:
  "result (handler (getCity (js ''London'')) (keyEnv (js ''k123''))
      (upstreamGarbled True (js ''Unexpected end of JSON input''))) =
     Inr \<lparr>statusCode = Status 500, headers = corsHeaders,
          body = JSON_stringify
            (JObj [(js ''error'',
                      JStr (js ''Failed to fetch weather data. Please try again later.'')),
                   (js ''detail'', JStr (js ''Unexpected end of JSON input''))])\<rparr>"
proof -
  have a: "londonUrl \<in> set (fetched (handler (getCity (js ''London'')) (keyEnv (js ''k123'')) f))" for f
    by (simp add: fetched_London)
  show ?thesis
    using handler_upstream[OF a, of "upstreamGarbled True (js ''Unexpected end of JSON input'')"]
    by (simp add: upstreamGarbled_def tryBlock_def fetchFailed_def)
qed

section \<open>The upstream URL\<close>

lemma lead_not_trail: "isLeadSurrogate c \<Longrightarrow> \<not> isTrailSurrogate c"
  by (simp add: isLeadSurrogate_def isTrailSurrogate_def word_le_nat_alt)

lemma uriUnescaped_ascii: "uriUnescaped c \<Longrightarrow> c < 0x80"
  by (auto simp: uriUnescaped_def js_def word_le_nat_alt word_less_nat_alt)

lemma surrogate_not_unescaped:
  "isLeadSurrogate c \<or> isTrailSurrogate c \<Longrightarrow> \<not> uriUnescaped c"
  using uriUnescaped_ascii[of c]
  by (auto simp: isLeadSurrogate_def isTrailSurrogate_def word_le_nat_alt word_less_nat_alt)

lemma encode_wellFormed: "isWellFormed s \<Longrightarrow> \<exists>q. encodeURIComponent s = Some q"
proof (induction s rule: isWellFormed.induct)
  case 1
  then show ?case by simp
next
  case (2 c)
  then show ?case by simp
next
  case (3 c d ds)
  then show ?case
    by (auto simp: surrogate_not_unescaped lead_not_trail split: if_splits)
qed

text \<open>
  C3, as the code has it. For a GET request with a city that is not empty after trimming
  and has no unpaired surrogate, and an API key that is set, the handler calls the
  upstream once, at the fixed address followed by
  \<^verbatim>\<open>key=<secret>&q=<encoded city>&days=7&aqi=yes\<close>, where the encoded city is
  \<open>encodeURIComponent\<close> of the trimmed city.
\<close>

theorem upstream_url_shape:
  assumes "httpMethod event = js ''GET''"
    and "cityParam event = Some city" and "trim city \<noteq> []" and "isWellFormed (trim city)"
    and "env (js ''WEATHER_API_KEY'') = Some API_KEY" and "API_KEY \<noteq> []"
  shows "\<exists>q. encodeURIComponent (trim city) = Some q \<and>
           fetched (handler event env fetch) =
             [js ''https://api.weatherapi.com/v1/forecast.json?''
                @ js ''key='' @ API_KEY @ js ''&q='' @ q @ js ''&days=7&aqi=yes'']"
proof -
  from encode_wellFormed[OF assms(4)] obtain q where q: "encodeURIComponent (trim city) = Some q" ..
  have "city \<noteq> []" using assms(3) by (auto simp: trim_def)
  then have "fetched (handler event env fetch) = [weatherUrl API_KEY q]"
    using assms q by (simp add: handler_def callUpstream_def split: sum.splits)
  also have "weatherUrl API_KEY q = js ''https://api.weatherapi.com/v1/forecast.json?''
                @ js ''key='' @ API_KEY @ js ''&q='' @ q @ js ''&days=7&aqi=yes''"
    by (simp add: weatherUrl_def js_def)
  finally show ?thesis using q by simp
qed

theorem upstream_url_shape_witness:
  "encodeURIComponent (trim (js '' New York '')) = Some (js ''New%20York'')
   \<and> fetched (handler (getCity (js '' New York '')) (keyEnv (js ''k123'')) (upstreamAnswers True JNull)) =
     [js ''https://api.weatherapi.com/v1/forecast.json?key=k123&q=New%20York&days=7&aqi=yes'']"
proof -
  have t: "trim (js '' New York '') = js ''New York''"
    by (simp add: trim_def js_def isWhiteSpace_def)
  have e: "encodeURIComponent (js ''New York'') = Some (js ''New%20York'')"
    by (simp add: js_def uriUnescaped_def isTrailSurrogate_def isLeadSurrogate_def
        percentEncode_def utf8_def percentByte_def hexUpper_def)
  have a: "httpMethod (getCity (js '' New York '')) = js ''GET''"
    and b: "cityParam (getCity (js '' New York '')) = Some (js '' New York '')"
    by (simp_all add: getCity_def cityParam_def)
  have c: "trim (js '' New York '') \<noteq> []"
    by (simp add: t) (simp add: js_def)
  have d: "isWellFormed (trim (js '' New York ''))"
    by (simp add: t) (simp add: js_def isLeadSurrogate_def isTrailSurrogate_def)
  have k: "keyEnv (js ''k123'') (js ''WEATHER_API_KEY'') = Some (js ''k123'')" "js ''k123'' \<noteq> []"
    by (simp_all add: keyEnv_def js_def)
  from upstream_url_shape[where env = "keyEnv (js ''k123'')" and fetch = "upstreamAnswers True JNull", OF a b c d k]
  show ?thesis
    by (simp add: t e) (simp add: js_def)
qed

text \<open>
  A city with an unpaired surrogate is valid for the handler's own check, but
  \<open>encodeURIComponent\<close> throws on it, outside the \<open>try\<close>: no URL is built, nothing is
  fetched, and the invocation rejects.
\<close>

theorem lone_surrogate_rejects:
  "result (handler (getCity [0xD800]) (keyEnv (js ''k123'')) (upstreamAnswers True JNull)) = Inl URIError
   \<and> fetched (handler (getCity [0xD800]) (keyEnv (js ''k123'')) (upstreamAnswers True JNull)) = []"
  by (simp add: handler_def getCity_def keyEnv_def cityParam_def callUpstream_def trim_def
      isWhiteSpace_def uriUnescaped_def isTrailSurrogate_def isLeadSurrogate_def js_def)

section \<open>Upstream answers with an error status\<close>

lemma statusMapGet_table:
  "statusMapGet (js ''1006'') = Some (Status 404)"
  "statusMapGet (js ''2006'') = Some (Status 401)"
  "statusMapGet (js ''2007'') = Some (Status 403)"
  "statusMapGet (js ''2008'') = Some (Status 403)"
  "statusMapGet (js ''9000'') = Some (Status 400)"
  "statusMapGet (js ''9001'') = Some (Status 400)"
  by (simp_all add: statusMapGet_def statusMap_def js_def)

lemma statusMapGet_other:
  "key \<notin> fst ` set statusMap \<Longrightarrow> key \<notin> set objectPrototypeKeys \<Longrightarrow> statusMapGet key = None"
  by (simp add: statusMapGet_def map_of_eq_None_iff[THEN iffD2])

lemma numeric_key_not_inherited: "list_all numberChar key \<Longrightarrow> key \<notin> set objectPrototypeKeys"
  by (auto simp: objectPrototypeKeys_def js_def numberChar_def)

text \<open>A code that is a number and not in the table gives 502.\<close>

lemma numeric_code_unmapped:
  "list_all numberChar key \<Longrightarrow> key \<notin> fst ` set statusMap \<Longrightarrow> statusMapGet key = None"
  by (simp add: statusMapGet_other numeric_key_not_inherited)

lemma decimal_1006: "decimal 1006 = js ''1006''"
  by (simp add: decimal.simps js_def)

lemma upstream_error_response:
  assumes "url \<in> set (fetched (handler event env fetch))"
    and "fetch url = FetchResponse False (JsonValue data)"
    and "ToString (nullish (optChain (optChain (Some data) (js ''error'')) (js ''code''))
            (JStr (js ''unknown''))) = Some key"
    and "ToString (nullish (optChain (optChain (Some data) (js ''error'')) (js ''message''))
            (JStr (js ''Unknown error from WeatherAPI.''))) = Some message"
  shows "result (handler event env fetch) =
     Inr \<lparr>statusCode = (case statusMapGet key of None \<Rightarrow> Status 502 | Some v \<Rightarrow> v),
          headers = corsHeaders,
          body = JSON_stringify
            (JObj [(js ''error'',
                    nullish (optChain (optChain (Some data) (js ''error'')) (js ''message''))
                      (JStr (js ''Unknown error from WeatherAPI.''))),
                   (js ''code'',
                    nullish (optChain (optChain (Some data) (js ''error'')) (js ''code''))
                      (JStr (js ''unknown'')))])\<rparr>"
  using assms(2-) handler_upstream[OF assms(1)]
  by (simp add: tryBlock_def upstreamError_def Let_def)

lemma no_location_404:
  "result (handler (getCity (js ''London'')) (keyEnv (js ''k123'')) (upstreamAnswers False noLocation)) =
     Inr \<lparr>statusCode = Status 404, headers = corsHeaders,
          body = JSON_stringify
            (JObj [(js ''error'', JStr (js ''No matching location found.'')),
                   (js ''code'', JInt 1006)])\<rparr>"
proof -
  have a: "londonUrl \<in> set (fetched (handler (getCity (js ''London'')) (keyEnv (js ''k123''))
      (upstreamAnswers False noLocation)))"
    by (simp add: fetched_London)
  have b: "upstreamAnswers False noLocation londonUrl = FetchResponse False (JsonValue noLocation)"
    by (simp add: upstreamAnswers_def)
  have c: "nullish (optChain (optChain (Some noLocation) (js ''error'')) (js ''code''))
            (JStr (js ''unknown'')) = JInt 1006"
    and m: "nullish (optChain (optChain (Some noLocation) (js ''error'')) (js ''message''))
            (JStr (js ''Unknown error from WeatherAPI.'')) = JStr (js ''No matching location found.'')"
    by (simp_all add: noLocation_def JInt_def) (simp_all add: js_def)
  have k: "ToString (JInt 1006) = Some (js ''1006'')"
    by (simp add: JInt_def decimal_1006)
  from upstream_error_response[where fetch = "upstreamAnswers False noLocation", OF a b,
      unfolded c m, OF k] statusMapGet_table(1)
  show ?thesis by simp
qed

lemma unconvertible_code_500:
  "result (handler (getCity (js ''London'')) (keyEnv (js ''k123''))
      (upstreamAnswers False unconvertibleError)) = Inr (fetchFailed cannotConvert)"
proof -
  have a: "londonUrl \<in> set (fetched (handler (getCity (js ''London'')) (keyEnv (js ''k123'')) f))" for f
    by (simp add: fetched_London)
  have "upstreamError unconvertibleError = Inl cannotConvert"
    by (simp add: upstreamError_def unconvertibleError_def Let_def)
  then show ?thesis
    using handler_upstream[OF a, of "upstreamAnswers False unconvertibleError"]
    by (simp add: upstreamAnswers_def tryBlock_def)
qed

text \<open>
  C1 fails on the code. \<open>statusMap[errorCode]\<close> also finds the properties that every
  object inherits from \<open>Object.prototype\<close>, and \<open>??\<close> replaces only \<open>undefined\<close> and
  \<open>null\<close>: for the code \<open>"constructor"\<close>, which is not in the table, the status code of
  the response is the function \<open>Object.prototype.constructor\<close>, not 502.
\<close>

theorem inherited_status:
  "result (handler (getCity (js ''London'')) (keyEnv (js ''k123'')) (upstreamAnswers False constructorError)) =
     Inr \<lparr>statusCode = ObjectPrototype (js ''constructor''), headers = corsHeaders,
          body = JSON_stringify (JObj [(js ''error'', JStr (js ''x'')), (js ''code'', JStr (js ''constructor''))])\<rparr>"
proof -
  have a: "londonUrl \<in> set (fetched (handler (getCity (js ''London'')) (keyEnv (js ''k123'')) f))" for f
    by (simp add: fetched_London)
  have m: "map_of [(js ''error'', JObj [(js ''code'', JStr (js ''constructor'')), (js ''message'', JStr (js ''x''))])] (js ''error'')
     = Some (JObj [(js ''code'', JStr (js ''constructor'')), (js ''message'', JStr (js ''x''))])"
    by simp
  have c: "map_of [(js ''code'', JStr (js ''constructor'')), (js ''message'', JStr (js ''x''))] (js ''code'') = Some (JStr (js ''constructor''))"
    by simp
  have d: "map_of [(js ''code'', JStr (js ''constructor'')), (js ''message'', JStr (js ''x''))] (js ''message'') = Some (JStr (js ''x''))"
    by (simp add: js_def)
  have e: "statusMapGet (js ''constructor'') = Some (ObjectPrototype (js ''constructor''))"
    by (simp add: statusMapGet_def statusMap_def objectPrototypeKeys_def js_def)
  have "upstreamError constructorError = Inr ([[js ''WeatherAPI error ['' @ js ''constructor'' @ js '']: '' @ js ''x'']], 
        \<lparr>statusCode = ObjectPrototype (js ''constructor''), headers = corsHeaders,
          body = JSON_stringify (JObj [(js ''error'', JStr (js ''x'')), (js ''code'', JStr (js ''constructor''))])\<rparr>)"
    unfolding upstreamError_def constructorError_def
    by (simp add: m c d e del: map_of.simps)
  then show ?thesis
    using handler_upstream[OF a, of "upstreamAnswers False constructorError"]
    by (simp add: upstreamAnswers_def tryBlock_def)
qed

section \<open>The body of a success is the payload\<close>

lemma startsValueEnd_simps [simp]:
  "startsValueEnd []" "startsValueEnd (c # cs) \<longleftrightarrow> c = 0x2C \<or> c = 0x5D \<or> c = 0x7D"
  by (simp_all add: startsValueEnd_def)





lemma lt16: "m < 16 \<Longrightarrow> m \<in> set [0..<16]"
  by simp

lemma hexDigitValue_digit: "m < 16 \<Longrightarrow> hexDigitValue (js ''0123456789abcdef'' ! m) = Some m"
proof -
  have "\<forall>m\<in>set [0..<16]. hexDigitValue (js ''0123456789abcdef'' ! m) = Some m"
    by (simp add: upt_rec hexDigitValue_def js_def)
  then show "m < 16 \<Longrightarrow> hexDigitValue (js ''0123456789abcdef'' ! m) = Some m"
    by simp
qed

lemma hexDigitValue_hexLower: "hexDigitValue (hexLower n) = Some (n mod 16)"
  by (simp add: hexLower_def hexDigitValue_digit)

lemma unat16: "unat (c :: 16 word) < 65536"
  using unsigned_less[of c] by simp

lemma hex_digits_sum:
  assumes "(u::nat) < 65536"
  shows "u div 4096 mod 16 * 4096 + u div 256 mod 16 * 256 + u div 16 mod 16 * 16 + u mod 16 = u"
proof -
  define a where "a = u div 4096"
  define b where "b = u div 256 mod 16"
  define c where "c = u div 16 mod 16"
  define d where "d = u mod 16"
  have "u div 16 div 16 = u div 256" "u div 256 div 16 = u div 4096"
    by (simp_all add: div_mult2_eq[symmetric])
  then have 1: "u div 256 = a * 16 + b" and 2: "u div 16 = u div 256 * 16 + c"
    and 3: "u = u div 16 * 16 + d"
    unfolding a_def b_def c_def d_def
    using div_mult_mod_eq[of "u div 256" 16] div_mult_mod_eq[of "u div 16" 16] div_mult_mod_eq[of u 16]
    by simp_all
  have "a < 16" unfolding a_def using assms by (simp add: less_mult_imp_div_less)
  then have 4: "u div 4096 mod 16 = a" by (simp add: a_def)
  have "u = ((a * 16 + b) * 16 + c) * 16 + d"
    using 1 2 3 by simp
  then have "a * 4096 + b * 256 + c * 16 + d = u"
    by (simp add: algebra_simps)
  then show ?thesis
    unfolding 4 b_def c_def d_def .
qed

lemma hexUnit_unicodeEscape:
  "hexUnit (hexLower (unat c div 4096)) (hexLower (unat c div 256)) (hexLower (unat c div 16))
     (hexLower (unat c)) = Some c"
  by (simp add: hexUnit_def hexDigitValue_hexLower hex_digits_sum[OF unat16])

lemma read_quoteUnit:
  "readString (quoteUnit c @ rest) = map_option (apfst ((#) c)) (readString rest)"
  by (simp add: quoteUnit_def unicodeEscape_def simpleEscape_def hexUnit_unicodeEscape)

lemma surrogate_not_special:
  "isLeadSurrogate c \<or> isTrailSurrogate c \<Longrightarrow> c \<noteq> 0x22 \<and> c \<noteq> 0x5C \<and> \<not> c < 0x20"
  by (auto simp: isLeadSurrogate_def isTrailSurrogate_def word_le_nat_alt word_less_nat_alt)

lemma read_quoteBody: "readString (quoteBody s @ 0x22 # R) = Some (s, R)"
proof (induction s rule: quoteBody.induct)
  case 1
  then show ?case by simp
next
  case (2 c)
  then show ?case by (simp add: read_quoteUnit)
next
  case (3 c d ds)
  then show ?case
    using surrogate_not_special[of c] surrogate_not_special[of d]
    by (simp add: read_quoteUnit)
qed

lemma read_QuoteJSONString:
  "QuoteJSONString s @ R = 0x22 # t \<Longrightarrow> readString t = Some (s, R)"
  by (auto simp: QuoteJSONString_def read_quoteBody)



lemma finite_number:
  "wellFormedValue (JNum r) \<Longrightarrow> noNonFinite (JNum r) \<Longrightarrow> parseNumber r = Some (r, [])"
  by (auto simp: nonFinite_def)







text \<open>The definitions that evaluate a number literal.\<close>

lemmas number_eval =
  parseNumber_def scanNumber_def isDigit_def isExpMark_def addDigit_def addFracDigit_def
  addExpDigit_def digitValue_def numAccepting_def literalValue_def numberToString_def
  shortestDigits_def magnitude_def candidate_def chooseDigits_def roundsTo_def
  toDouble_def roundToDouble_def floorLog2_def scaled_def packDouble_def
  bitLength.simps roundHalfEven_def digitsOf.simps scaleUp.simps renderDigits_def
  shortestFrom.simps



text \<open>
  A number too large for a double parses to \<open>Infinity\<close>, and \<open>JSON.stringify\<close> writes
  \<open>Infinity\<close> as \<open>null\<close>: parsing the response body gives \<open>null\<close>, not the payload.
\<close>

lemma parse_overflow: "JSON_parse (js ''1e309'') = Some (JNum (js ''Infinity''))"
  by (simp add: JSON_parse_def js_def skipWs_def isJsonWhiteSpace_def number_eval)


section \<open>The API key and the response\<close>

lemma keyIsSet_cases:
  "keyIsSet env \<Longrightarrow> \<exists>k. env (js ''WEATHER_API_KEY'') = Some k \<and> k \<noteq> []"
  "\<not> keyIsSet env \<Longrightarrow> env (js ''WEATHER_API_KEY'') = None \<or> env (js ''WEATHER_API_KEY'') = Some []"
  by (auto simp: keyIsSet_def split: option.splits)

lemma handler_key_unset:
  "\<not> keyIsSet env \<Longrightarrow> \<not> keyIsSet env' \<Longrightarrow> handler event env fetch = handler event env' fetch'"
  by (auto simp: handler_def dest!: keyIsSet_cases(2) split: option.splits)

lemma callUpstream_result:
  "result (callUpstream k c fetch) =
     (case encodeURIComponent (trim c) of
        None \<Rightarrow> Inl URIError
      | Some q \<Rightarrow>
          (case tryBlock (fetch (weatherUrl k q)) of
             Inr (lines, resp) \<Rightarrow> Inr resp
           | Inl message \<Rightarrow> Inr (fetchFailed message)))"
  by (simp add: callUpstream_def split: option.splits sum.splits)

lemma callUpstream_fetched:
  "fetched (callUpstream k c fetch) =
     (case encodeURIComponent (trim c) of None \<Rightarrow> [] | Some q \<Rightarrow> [weatherUrl k q])"
  by (simp add: callUpstream_def split: option.splits sum.splits)

text \<open>
  What holds of the key. Whether it is set decides, for a GET request with a valid city,
  between the configuration error and the upstream call; beyond that the response is made
  from the upstream's answer alone. Two invocations on the same event whose upstream
  calls (if any) are answered alike, and whose keys are both set or both unset if the
  event is a GET with a valid city, return the same response.
\<close>

lemma key_reaches_body_only_through_upstream:
  assumes "\<forall>c. httpMethod event = js ''GET'' \<and> cityParam event = Some c \<and> trim c \<noteq> []
             \<longrightarrow> (keyIsSet env \<longleftrightarrow> keyIsSet env')"
    and "\<forall>url url'. fetched (handler event env fetch) = [url]
           \<longrightarrow> fetched (handler event env' fetch') = [url'] \<longrightarrow> fetch url = fetch' url'"
  shows "result (handler event env fetch) = result (handler event env' fetch')"
proof (cases "httpMethod event = js ''GET'' \<and> (\<exists>c. cityParam event = Some c \<and> trim c \<noteq> [])")
  case False
  then show ?thesis
    by (auto simp: handler_def split: option.splits)
next
  case True
  then obtain c where c: "httpMethod event = js ''GET''" "cityParam event = Some c" "trim c \<noteq> []"
    by blast
  then have c': "c \<noteq> []" by (auto simp: trim_def)
  from c assms(1) have same: "keyIsSet env \<longleftrightarrow> keyIsSet env'" by blast
  show ?thesis
  proof (cases "keyIsSet env")
    case False
    with same show ?thesis by (simp add: handler_key_unset[of env env' event fetch fetch'])
  next
    case True
    with same have "keyIsSet env'" by simp
    from keyIsSet_cases(1)[OF True] keyIsSet_cases(1)[OF this]
    obtain k k' where k: "env (js ''WEATHER_API_KEY'') = Some k" "k \<noteq> []"
      "env' (js ''WEATHER_API_KEY'') = Some k'" "k' \<noteq> []" by blast
    have h: "handler event env fetch = callUpstream k c fetch"
      "handler event env' fetch' = callUpstream k' c fetch'"
      using c c' k by (simp_all add: handler_def)
    show ?thesis
    proof (cases "encodeURIComponent (trim c)")
      case None
      then show ?thesis by (simp add: h callUpstream_result)
    next
      case (Some q)
      then have "fetch (weatherUrl k q) = fetch' (weatherUrl k' q)"
        using assms(2) by (simp add: h callUpstream_fetched)
      then show ?thesis by (simp add: h callUpstream_result Some)
    qed
  qed
qed

lemma key_reaches_body_only_through_upstream_example:
  "keyIsSet (keyEnv (js ''k123'')) \<and> keyIsSet (keyEnv (js ''other-key''))
   \<and> result (handler (getCity (js ''London'')) (keyEnv (js ''k123''))
        (upstreamAnswers False noLocation))
     = result (handler (getCity (js ''London'')) (keyEnv (js ''other-key''))
        (upstreamAnswers False noLocation))"
proof -
  have a: "keyIsSet (keyEnv (js ''k123''))" "keyIsSet (keyEnv (js ''other-key''))"
    by (simp_all add: keyIsSet_def keyEnv_def js_def)
  then have b: "\<forall>c. httpMethod (getCity (js ''London'')) = js ''GET''
        \<and> cityParam (getCity (js ''London'')) = Some c \<and> trim c \<noteq> []
      \<longrightarrow> (keyIsSet (keyEnv (js ''k123'')) \<longleftrightarrow> keyIsSet (keyEnv (js ''other-key'')))"
    by simp
  have c: "\<forall>url url'.
      fetched (handler (getCity (js ''London'')) (keyEnv (js ''k123''))
        (upstreamAnswers False noLocation)) = [url]
      \<longrightarrow> fetched (handler (getCity (js ''London'')) (keyEnv (js ''other-key''))
        (upstreamAnswers False noLocation)) = [url']
      \<longrightarrow> upstreamAnswers False noLocation url = upstreamAnswers False noLocation url'"
    by (simp add: upstreamAnswers_def)
  from key_reaches_body_only_through_upstream[OF b c] a show ?thesis by simp
qed

text \<open>
  C9 fails on the code. The body of an upstream error is made of the upstream's
  \<open>error.message\<close> and \<open>error.code\<close>, copied unfiltered (as \<open>detail\<close> is the message of
  the error caught): when the upstream's message names the key it was sent, the key is in
  the body the caller receives.
\<close>

theorem key_echo_forwarded:
  "sublist (js ''k123'')
     (responseBody (handler (getCity (js ''London'')) (keyEnv (js ''k123''))
        (upstreamAnswers False echoedKeyError)))"
proof -
  have a: "londonUrl \<in> set (fetched (handler (getCity (js ''London'')) (keyEnv (js ''k123'')) f))" for f
    by (simp add: fetched_London)
  have b: "upstreamAnswers False echoedKeyError londonUrl
      = FetchResponse False (JsonValue echoedKeyError)"
    by (simp add: upstreamAnswers_def)
  have c: "nullish (optChain (optChain (Some echoedKeyError) (js ''error'')) (js ''code''))
            (JStr (js ''unknown'')) = JInt 2006"
    and m: "nullish (optChain (optChain (Some echoedKeyError) (js ''error'')) (js ''message''))
            (JStr (js ''Unknown error from WeatherAPI.''))
          = JStr (js ''API key k123 is invalid.'')"
    by (simp_all add: echoedKeyError_def JInt_def) (simp_all add: js_def)
  have k: "ToString (JInt 2006) = Some (decimal 2006)"
    by (simp add: JInt_def)
  have "responseBody (handler (getCity (js ''London'')) (keyEnv (js ''k123''))
        (upstreamAnswers False echoedKeyError))
      = JSON_stringify (JObj [(js ''error'', JStr (js ''API key k123 is invalid.'')),
                              (js ''code'', JInt 2006)])"
    using upstream_error_response[where fetch = "upstreamAnswers False echoedKeyError", OF a b,
        unfolded c m, OF k]
    by (simp add: responseBody_def)
  also have "\<dots> =
      (js ''{'' @ [0x22] @ js ''error'' @ [0x22] @ js '':'' @ [0x22] @ js ''API key '')
      @ js ''k123''
      @ (js '' is invalid.'' @ [0x22] @ js '','' @ [0x22] @ js ''code'' @ [0x22]
           @ js '':2006}'')"
    by (simp add: QuoteJSONString_def js_def quoteUnit_def isLeadSurrogate_def
        isTrailSurrogate_def JInt_def decimal.simps nonFinite_def)
  finally show ?thesis
    by (simp only: sublist_appendI)
qed

end
